theory Spec2Isabelle
  imports Main "HOL-Library.AList" "HOL-Library.Sublist" "HOL-Library.Countable"
begin

section \<open>Values, errors and the outside world\<close>

text \<open>
  The program \<^verbatim>\<open>proj2_nps.py\<close> scrapes park pages and queries a places API, and keeps
  what it fetched in one JSON file, \<^verbatim>\<open>new_cache.json\<close>. Everything the functions do
  beyond returning a value is explicit here: an exception is the \<open>Inl\<close> of a sum, the
  cache file and the record of requests sent are fields of a \<open>world\<close> that every
  operation takes and returns. Writes to standard output (\<^verbatim>\<open>print\<close>) are left out.
\<close>

datatype py_error =
  KeyError | TypeError | AttributeError | OSError | RequestException | JSONDecodeError

text \<open>
  What \<^verbatim>\<open>json.loads\<close> can return. An object is an association list in insertion order,
  as a Python dict is. Finite floats are their rational value; NaN and the infinities are
  left out (no function here reads a number).
\<close>

datatype json =
  JNull
| JBool bool
| JInt int
| JFloat rat
| JStr string
| JArr "json list"
| JObj "(string \<times> json) list"

instance json :: countable
  by countable_datatype

text \<open>The file \<^verbatim>\<open>CACHE_FILENAME\<close>: missing, present but not readable as text, or text.\<close>

datatype file_state = Absent | Unreadable | Content string

text \<open>A request sent: the URL and the query parameters.\<close>

type_synonym request = "string \<times> (string \<times> string) list"

record world =
  cache_file :: file_state
  writable :: bool
  net_log :: "request list"

text \<open>A selector of \<^verbatim>\<open>find\<close> and \<^verbatim>\<open>find_all\<close>: a tag name, \<^verbatim>\<open>class_=\<close>, \<^verbatim>\<open>id=\<close>, \<^verbatim>\<open>itemprop=\<close>.\<close>

datatype selector = Tag string | Class string | Id string | Itemprop string

text \<open>
  The libraries and services the program calls, as parameters: the \<^verbatim>\<open>json\<close> module, the
  remote servers behind \<^verbatim>\<open>requests.get\<close> (the body of the response, or the exception),
  \<^verbatim>\<open>secrets.API_Key\<close>, and BeautifulSoup over a type \<open>'n\<close> of parsed nodes. \<open>find_all\<close>
  lists its matches in document order.
\<close>

record 'n env =
  json_loads :: "string \<Rightarrow> json option"
  json_dumps :: "json \<Rightarrow> string"
  http_get :: "string \<Rightarrow> (string \<times> string) list \<Rightarrow> py_error + string"
  API_Key :: string
  BeautifulSoup :: "json \<Rightarrow> py_error + 'n"
  find :: "selector \<Rightarrow> 'n \<Rightarrow> 'n option"
  find_all :: "selector \<Rightarrow> 'n \<Rightarrow> 'n list"
  node_text :: "'n \<Rightarrow> string"
  node_attr :: "string \<Rightarrow> 'n \<Rightarrow> string option"

text \<open>The \<^verbatim>\<open>json\<close> module decodes what it encoded.\<close>

definition codec_ok :: "'n env \<Rightarrow> bool" where
  "codec_ok E \<longleftrightarrow> (\<forall>m. json_loads E (json_dumps E m) = Some m)"

subsection \<open>Operations that may raise and that change the world\<close>

type_synonym 'a py = "world \<Rightarrow> (py_error + 'a) \<times> world"

definition py_lift :: "py_error + 'a \<Rightarrow> 'a py" where
  "py_lift r w = (r, w)"

definition py_bind :: "'a py \<Rightarrow> ('a \<Rightarrow> 'b py) \<Rightarrow> 'b py" where
  "py_bind m f w = (case m w of (Inl e, w') \<Rightarrow> (Inl e, w') | (Inr x, w') \<Rightarrow> f x w')"

text \<open>\<^verbatim>\<open>x.attr\<close> and \<^verbatim>\<open>x[key]\<close> where \<^verbatim>\<open>x\<close> may be \<^verbatim>\<open>None\<close>, and a key that may be missing.\<close>

definition or_raise :: "py_error \<Rightarrow> 'a option \<Rightarrow> py_error + 'a" where
  "or_raise e x = (case x of None \<Rightarrow> Inl e | Some y \<Rightarrow> Inr y)"

text \<open>Sequencing of steps that may raise and leave the world alone.\<close>

definition py_then :: "py_error + 'a \<Rightarrow> ('a \<Rightarrow> py_error + 'b) \<Rightarrow> py_error + 'b" where
  "py_then r f = (case r of Inl e \<Rightarrow> Inl e | Inr x \<Rightarrow> f x)"

subsection \<open>Strings\<close>

text \<open>Strings are ASCII here; \<^verbatim>\<open>lower\<close>, \<^verbatim>\<open>capitalize\<close> and \<^verbatim>\<open>strip\<close> as on ASCII text.\<close>

definition lower_char :: "char \<Rightarrow> char" where
  "lower_char c =
     (let n = (of_char c :: nat) in if 65 \<le> n \<and> n \<le> 90 then char_of (n + 32) else c)"

definition upper_char :: "char \<Rightarrow> char" where
  "upper_char c =
     (let n = (of_char c :: nat) in if 97 \<le> n \<and> n \<le> 122 then char_of (n - 32) else c)"

definition lower :: "string \<Rightarrow> string" where
  "lower s = map lower_char s"

definition capitalize :: "string \<Rightarrow> string" where
  "capitalize s = (case s of [] \<Rightarrow> [] | c # cs \<Rightarrow> upper_char c # map lower_char cs)"

definition is_space :: "char \<Rightarrow> bool" where
  "is_space c = (let n = (of_char c :: nat) in (9 \<le> n \<and> n \<le> 13) \<or> (28 \<le> n \<and> n \<le> 32))"

definition strip :: "string \<Rightarrow> string" where
  "strip s = rev (dropWhile is_space (rev (dropWhile is_space s)))"

subsection \<open>The operators \<^verbatim>\<open>in\<close>, \<^verbatim>\<open>d[k]\<close> and \<^verbatim>\<open>d[k] = v\<close> on a decoded value, with a string \<^verbatim>\<open>k\<close>\<close>

fun py_contains :: "string \<Rightarrow> json \<Rightarrow> py_error + bool" where
  "py_contains k (JObj kvs) = Inr (map_of kvs k \<noteq> None)"
| "py_contains k (JArr xs) = Inr (JStr k \<in> set xs)"
| "py_contains k (JStr s) = Inr (sublist k s)"
| "py_contains k _ = Inl TypeError"

fun py_getitem :: "json \<Rightarrow> string \<Rightarrow> py_error + json" where
  "py_getitem (JObj kvs) k = or_raise KeyError (map_of kvs k)"
| "py_getitem _ k = Inl TypeError"

fun py_setitem :: "json \<Rightarrow> string \<Rightarrow> json \<Rightarrow> py_error + json" where
  "py_setitem (JObj kvs) k v = Inr (JObj (AList.update k v kvs))"
| "py_setitem _ k v = Inl TypeError"

section \<open>The program\<close>

record NationalSite =
  category :: string
  name :: string
  address :: string
  zipcode :: string
  phone :: string

definition info :: "NationalSite \<Rightarrow> string" where
  "info s = name s @ '' ('' @ category s @ ''): '' @ address s @ '' '' @ zipcode s"

text \<open>\<^verbatim>\<open>requests.get(url, params)\<close> and the body of the response; the request is recorded.\<close>

definition requests_get :: "'n env \<Rightarrow> string \<Rightarrow> (string \<times> string) list \<Rightarrow> string py" where
  "requests_get E url params w = (http_get E url params, w\<lparr>net_log := net_log w @ [(url, params)]\<rparr>)"

subsection \<open>The cache file\<close>

text \<open>The body of the \<^verbatim>\<open>try\<close> of \<^verbatim>\<open>open_cache\<close>: open, read, decode.\<close>

definition read_cache_file :: "string py" where
  "read_cache_file w =
     (case cache_file w of
        Absent \<Rightarrow> (Inl OSError, w)
      | Unreadable \<Rightarrow> (Inl OSError, w)
      | Content s \<Rightarrow> (Inr s, w))"

definition loads :: "'n env \<Rightarrow> string \<Rightarrow> py_error + json" where
  "loads E s = or_raise JSONDecodeError (json_loads E s)"

definition open_cache :: "'n env \<Rightarrow> json py" where
  "open_cache E w =
     (case py_bind read_cache_file (\<lambda>cache_contents. py_lift (loads E cache_contents)) w of
        (Inr cache_dict, w') \<Rightarrow> (Inr cache_dict, w')
      | (Inl e, w') \<Rightarrow> (Inr (JObj []), w'))"

text \<open>Opening for writing fails on a file that cannot be written; else the text replaces the file.\<close>

definition save_cache :: "'n env \<Rightarrow> json \<Rightarrow> unit py" where
  "save_cache E cache_dict w =
     (let dumped_json_cache = json_dumps E cache_dict
      in if writable w then (Inr (), w\<lparr>cache_file := Content dumped_json_cache\<rparr>)
         else (Inl OSError, w))"

subsection \<open>The cached lookups\<close>

definition make_request_with_cache :: "'n env \<Rightarrow> string \<Rightarrow> json py" where
  "make_request_with_cache E url =
     py_bind (open_cache E) (\<lambda>CACHE_DICT.
     py_bind (py_lift (py_contains url CACHE_DICT)) (\<lambda>hit.
       if hit then py_lift (py_getitem CACHE_DICT url)
       else
         py_bind (requests_get E url []) (\<lambda>text.
         py_bind (py_lift (py_setitem CACHE_DICT url (JStr text))) (\<lambda>CACHE_DICT'.
         py_bind (save_cache E CACHE_DICT') (\<lambda>_.
         py_lift (py_getitem CACHE_DICT' url))))))"

definition get_url_with_cache :: "'n env \<Rightarrow> (string \<rightharpoonup> string) \<Rightarrow> string \<Rightarrow> json py" where
  "get_url_with_cache E states_dict state =
     py_bind (open_cache E) (\<lambda>CACHE_DICT.
     py_bind (py_lift (py_contains (capitalize state) CACHE_DICT)) (\<lambda>hit.
       if hit then py_lift (py_getitem CACHE_DICT (capitalize state))
       else
         py_bind (py_lift (or_raise KeyError (states_dict state))) (\<lambda>state_url.
         py_bind (py_lift (py_setitem CACHE_DICT (capitalize state) (JStr state_url))) (\<lambda>CACHE_DICT'.
         py_bind (save_cache E CACHE_DICT') (\<lambda>_.
         py_lift (py_getitem CACHE_DICT' (capitalize state)))))))"

definition get_nearby_places :: "'n env \<Rightarrow> NationalSite \<Rightarrow> json py" where
  "get_nearby_places E site_object =
     (let baseurl = ''http://www.mapquestapi.com/search/v2/radius'';
          parameter = [(''key'', API_Key E),
                       (''origin'', zipcode site_object),
                       (''radius'', ''10''),
                       (''maxMatches'', ''10''),
                       (''ambiguities'', ''ignore''),
                       (''outFormat'', ''json'')]
      in py_bind (requests_get E baseurl parameter) (\<lambda>resp. py_lift (loads E resp)))"

definition get_nearby_with_cache :: "'n env \<Rightarrow> NationalSite \<Rightarrow> json py" where
  "get_nearby_with_cache E instance =
     py_bind (open_cache E) (\<lambda>CACHE_DICT.
     py_bind (py_lift (py_contains (name instance) CACHE_DICT)) (\<lambda>hit.
       if hit then py_lift (py_getitem CACHE_DICT (name instance))
       else
         py_bind (get_nearby_places E instance) (\<lambda>nearby.
         py_bind (py_lift (py_setitem CACHE_DICT (name instance) nearby)) (\<lambda>CACHE_DICT'.
         py_bind (save_cache E CACHE_DICT') (\<lambda>_.
         py_lift (py_getitem CACHE_DICT' (name instance)))))))"

subsection \<open>Scraping\<close>

text \<open>\<^verbatim>\<open>x.find(sel).text.strip()\<close>, where \<^verbatim>\<open>x\<close> or what \<^verbatim>\<open>find\<close> gives may be \<^verbatim>\<open>None\<close>.\<close>

definition find_text :: "'n env \<Rightarrow> selector \<Rightarrow> 'n option \<Rightarrow> py_error + string" where
  "find_text E sel x =
     py_then (or_raise AttributeError x) (\<lambda>x'.
     py_then (or_raise AttributeError (find E sel x')) (\<lambda>y.
     Inr (strip (node_text E y))))"

text \<open>The body of \<^verbatim>\<open>get_site_instance\<close> after the page is fetched.\<close>

definition site_of_page :: "'n env \<Rightarrow> json \<Rightarrow> py_error + NationalSite" where
  "site_of_page E text =
     py_then (BeautifulSoup E text) (\<lambda>soup.
     let header = find E (Class ''Hero-titleContainer clearfix'') soup in
     py_then (find_text E (Class ''Hero-title'') header) (\<lambda>name'.
     py_then (find_text E (Class ''Hero-designation'') header) (\<lambda>category'.
     let footer = find E (Class ''ParkFooter-contact'') soup in
     py_then (find_text E (Itemprop ''addressLocality'') footer) (\<lambda>city.
     py_then (find_text E (Itemprop ''addressRegion'') footer) (\<lambda>state.
     py_then (find_text E (Itemprop ''postalCode'') footer) (\<lambda>zipcode'.
     py_then (find_text E (Itemprop ''telephone'') footer) (\<lambda>phone'.
     Inr \<lparr>category = category', name = name', address = city @ '', '' @ state,
          zipcode = zipcode', phone = phone'\<rparr>)))))))"

definition get_site_instance :: "'n env \<Rightarrow> string \<Rightarrow> NationalSite py" where
  "get_site_instance E site_url =
     py_bind (make_request_with_cache E site_url) (\<lambda>text. py_lift (site_of_page E text))"

text \<open>
  The \<^verbatim>\<open>for park in park_list\<close> loop of \<^verbatim>\<open>get_sites_for_state\<close>: first the body up to
  \<^verbatim>\<open>instance\<close>, then the loop with the list it appends to.
\<close>

definition park_site :: "'n env \<Rightarrow> 'n \<Rightarrow> NationalSite py" where
  "park_site E park =
     (let baseurl = ''https://www.nps.gov''
      in py_bind (py_lift (or_raise TypeError (find E (Tag ''a'') park))) (\<lambda>a.
         py_bind (py_lift (or_raise KeyError (node_attr E ''href'' a))) (\<lambda>para.
         get_site_instance E (baseurl @ para))))"

fun park_loop :: "'n env \<Rightarrow> 'n list \<Rightarrow> NationalSite list \<Rightarrow> NationalSite list py" where
  "park_loop E [] park_instance = py_lift (Inr park_instance)"
| "park_loop E (park # park_list) park_instance =
     py_bind (park_site E park) (\<lambda>instance.
     park_loop E park_list (park_instance @ [instance]))"

definition get_sites_for_state :: "'n env \<Rightarrow> string \<Rightarrow> NationalSite list py" where
  "get_sites_for_state E state_url =
     py_bind (requests_get E state_url []) (\<lambda>resp.
     py_bind (py_lift (BeautifulSoup E (JStr (strip resp)))) (\<lambda>soup.
     py_bind (py_lift (or_raise AttributeError (find E (Id ''list_parks'') soup))) (\<lambda>park_section.
       park_loop E
         (find_all E (Class ''col-md-9 col-sm-9 col-xs-12 table-cell list_left'') park_section)
         [])))"

text \<open>The \<^verbatim>\<open>for state in states\<close> loop of \<^verbatim>\<open>build_state_url_dict\<close>.\<close>

fun state_loop ::
  "'n env \<Rightarrow> 'n list \<Rightarrow> (string \<rightharpoonup> string) \<Rightarrow> py_error + (string \<rightharpoonup> string)" where
  "state_loop E [] state_url_dict = Inr state_url_dict"
| "state_loop E (state # states) state_url_dict =
     (let baseurl = ''https://www.nps.gov'' in
      py_then (or_raise AttributeError (find E (Tag ''a'') state)) (\<lambda>content.
      let name' = strip (lower (node_text E content)) in
      py_then (or_raise KeyError (node_attr E ''href'' content)) (\<lambda>href.
      state_loop E states (state_url_dict(name' \<mapsto> baseurl @ href)))))"

definition build_state_url_dict :: "'n env \<Rightarrow> (string \<rightharpoonup> string) py" where
  "build_state_url_dict E =
     (let parturl = ''https://www.nps.gov/index.htm''
      in py_bind (make_request_with_cache E parturl) (\<lambda>text.
         py_bind (py_lift (BeautifulSoup E text)) (\<lambda>soup.
         py_bind (py_lift (or_raise AttributeError
                    (find E (Class ''dropdown-menu SearchBar-keywordSearch'') soup))) (\<lambda>section.
         py_lift (state_loop E (find_all E (Tag ''li'') section) Map.empty)))))"

section \<open>Notions used to state the properties\<close>

text \<open>The value \<^verbatim>\<open>open_cache\<close> returns in a world: the decoded file, or the empty dict.\<close>

definition stored :: "'n env \<Rightarrow> world \<Rightarrow> json" where
  "stored E w =
     (case cache_file w of
        Absent \<Rightarrow> JObj []
      | Unreadable \<Rightarrow> JObj []
      | Content s \<Rightarrow> (case json_loads E s of None \<Rightarrow> JObj [] | Some m \<Rightarrow> m))"

text \<open>Two worlds in which \<^verbatim>\<open>make_request_with_cache\<close> answers every URL alike.\<close>

definition same_pages :: "'n env \<Rightarrow> world \<Rightarrow> world \<Rightarrow> bool" where
  "same_pages E w w1 \<longleftrightarrow>
     (\<forall>u. fst (make_request_with_cache E u w1) = fst (make_request_with_cache E u w))"

subsection \<open>A small environment, to run the functions on concrete inputs\<close>

text \<open>
  An encoding of decoded values as text that \<open>demo_loads\<close> decodes again, and that rejects
  any other text; the empty dict is written \<^verbatim>\<open>{}\<close>.
\<close>

definition demo_dumps :: "json \<Rightarrow> string" where
  "demo_dumps m = (if m = JObj [] then ''{}'' else CHR ''#'' # replicate (to_nat m) CHR ''1'')"

definition demo_loads :: "string \<Rightarrow> json option" where
  "demo_loads s =
     (if s = ''{}'' then Some (JObj [])
      else case s of [] \<Rightarrow> None
           | c # cs \<Rightarrow> if c = CHR ''#'' \<and> set cs \<subseteq> {CHR ''1''} then Some (from_nat (length cs))
                       else None)"

text \<open>
  Nodes are strings. One server is down; the places API answers with no results, and with
  a page that is not JSON for the origin 00000; the Michigan page lists two parks; any
  other URL serves a page naming it.
\<close>

definition demo_env :: "string env" where
  "demo_env =
     \<lparr>json_loads = demo_loads,
      json_dumps = demo_dumps,
      http_get = (\<lambda>url params.
        if url = ''https://down.example'' then Inl RequestException
        else if url = ''http://www.mapquestapi.com/search/v2/radius''
          then (if map_of params ''origin'' = Some ''00000'' then Inr ''<html>''
                else Inr (demo_dumps (JObj [(''searchResults'', JArr [])])))
        else if url = ''https://www.nps.gov/state/mi/index.htm'' then Inr '' state ''
        else Inr (''page '' @ url)),
      API_Key = ''key'',
      BeautifulSoup = (\<lambda>text. case text of JStr s \<Rightarrow> Inr s | _ \<Rightarrow> Inl TypeError),
      find = (\<lambda>sel n. Some n),
      find_all = (\<lambda>sel n. if n = ''state'' then [''/isro'', ''/slbe''] else []),
      node_text = (\<lambda>n. n),
      node_attr = (\<lambda>k n. Some n)\<rparr>"

text \<open>The record \<open>demo_env\<close> reads off a page whose text is \<open>t\<close>.\<close>

definition demo_site :: "string \<Rightarrow> NationalSite" where
  "demo_site t = \<lparr>category = t, name = t, address = t @ '', '' @ t, zipcode = t, phone = t\<rparr>"

text \<open>A world whose cache file holds \<^verbatim>\<open>{}\<close>, and one whose cache file holds a given dict.\<close>

definition empty_world :: world where
  "empty_world = \<lparr>cache_file = Content ''{}'', writable = True, net_log = []\<rparr>"

definition world_with :: "(string \<times> json) list \<Rightarrow> world" where
  "world_with kvs = \<lparr>cache_file = Content (demo_dumps (JObj kvs)), writable = True, net_log = []\<rparr>"

section \<open>The cache file and the cached fetch\<close>

lemma open_cache_stored: "open_cache E w = (Inr (stored E w), w)"
  by (simp add: open_cache_def stored_def py_bind_def py_lift_def read_cache_file_def loads_def
      or_raise_def split: file_state.splits option.splits)

lemma mrwc_hit:
  "stored E w = JObj kvs \<Longrightarrow> map_of kvs url = Some v \<Longrightarrow> make_request_with_cache E url w = (Inr v, w)"
  by (simp add: make_request_with_cache_def py_bind_def open_cache_stored py_lift_def or_raise_def)

lemma mrwc_miss:
  "stored E w = JObj kvs \<Longrightarrow> map_of kvs url = None \<Longrightarrow>
   make_request_with_cache E url w =
     (case http_get E url [] of
        Inl e \<Rightarrow> (Inl e, w\<lparr>net_log := net_log w @ [(url, [])]\<rparr>)
      | Inr text \<Rightarrow>
          if writable w
          then (Inr (JStr text),
                w\<lparr>net_log := net_log w @ [(url, [])],
                  cache_file := Content (json_dumps E (JObj (AList.update url (JStr text) kvs)))\<rparr>)
          else (Inl OSError, w\<lparr>net_log := net_log w @ [(url, [])]\<rparr>))"
  by (simp add: make_request_with_cache_def py_bind_def open_cache_stored py_lift_def or_raise_def
      requests_get_def save_cache_def update_conv' split: sum.splits)

lemma mrwc_Inr_obj:
  "make_request_with_cache E url w = (Inr v, w1) \<Longrightarrow> \<exists>kvs. stored E w = JObj kvs"
  by (cases "stored E w")
     (auto simp add: make_request_with_cache_def py_bind_def open_cache_stored py_lift_def
        requests_get_def split: sum.splits if_splits)

lemma stored_cong:
  "cache_file w2 = cache_file w \<Longrightarrow> stored E w2 = stored E w"
  by (simp add: stored_def)

lemma stored_written:
  "codec_ok E \<Longrightarrow> stored E (w\<lparr>cache_file := Content (json_dumps E m)\<rparr>) = m"
  by (simp add: stored_def codec_ok_def)

lemma mrwc_fst_cong:
  assumes "cache_file w2 = cache_file w" and "writable w2 = writable w"
  shows "fst (make_request_with_cache E u w2) = fst (make_request_with_cache E u w)"
proof -
  have s: "stored E w2 = stored E w" using assms(1) by (rule stored_cong)
  show ?thesis
    using assms(2) s
    by (simp add: make_request_with_cache_def py_bind_def open_cache_stored py_lift_def
        requests_get_def save_cache_def split: sum.splits)
qed

lemma same_pages_refl: "same_pages E w w"
  by (simp add: same_pages_def)

lemma same_pages_trans: "same_pages E w w1 \<Longrightarrow> same_pages E w1 w2 \<Longrightarrow> same_pages E w w2"
  by (simp add: same_pages_def)

lemma mrwc_same_pages:
  assumes ok: "codec_ok E" and run: "make_request_with_cache E u w = (Inr v, w1)"
  shows "same_pages E w w1"
proof -
  obtain kvs where obj: "stored E w = JObj kvs"
    using mrwc_Inr_obj [OF run] by blast
  show ?thesis
  proof (cases "map_of kvs u")
    case (Some v')
    then have "w1 = w" using mrwc_hit [OF obj Some] run by simp
    then show ?thesis by (simp add: same_pages_refl)
  next
    case None
    from run mrwc_miss [OF obj None]
    obtain body where get: "http_get E u [] = Inr body" and wr: "writable w"
      and v: "v = JStr body"
      and w1: "w1 = w\<lparr>net_log := net_log w @ [(u, [])],
                  cache_file := Content (json_dumps E (JObj (AList.update u (JStr body) kvs)))\<rparr>"
      by (auto split: sum.splits if_splits)
    have obj1: "stored E w1 = JObj (AList.update u (JStr body) kvs)"
      unfolding w1 by (rule stored_written [OF ok])
    have wr1: "writable w1" using wr by (simp add: w1)
    have "fst (make_request_with_cache E u' w1) = fst (make_request_with_cache E u' w)" for u'
    proof (cases "u' = u")
      case True
      have "map_of (AList.update u (JStr body) kvs) u = Some (JStr body)"
        by (simp add: update_conv')
      from mrwc_hit [OF obj1 this] show ?thesis
        using True run v by simp
    next
      case False
      then have m: "map_of (AList.update u (JStr body) kvs) u' = map_of kvs u'"
        by (simp add: update_conv')
      show ?thesis
      proof (cases "map_of kvs u'")
        case None
        then show ?thesis
          using mrwc_miss [OF obj None] mrwc_miss [OF obj1, of u'] m wr wr1
          by (simp split: sum.splits)
      next
        case (Some x)
        then show ?thesis
          using mrwc_hit [OF obj Some] mrwc_hit [OF obj1, of u' x] m by simp
      qed
    qed
    then show ?thesis by (simp add: same_pages_def)
  qed
qed

lemma park_site_fst:
  "fst (park_site E park w) =
     (case find E (Tag ''a'') park of None \<Rightarrow> Inl TypeError
      | Some a \<Rightarrow>
        (case node_attr E ''href'' a of None \<Rightarrow> Inl KeyError
         | Some para \<Rightarrow>
           (case fst (make_request_with_cache E (''https://www.nps.gov'' @ para) w) of
              Inl e \<Rightarrow> Inl e
            | Inr text \<Rightarrow> site_of_page E text)))"
  by (simp add: park_site_def get_site_instance_def py_bind_def py_lift_def or_raise_def
      split: option.splits sum.splits prod.splits)

lemma park_site_same_pages:
  assumes "codec_ok E" and "park_site E park w = (Inr r, w1)"
  shows "same_pages E w w1"
proof -
  from assms(2) obtain u body where "make_request_with_cache E u w = (Inr body, w1)"
    by (auto simp add: park_site_def get_site_instance_def py_bind_def py_lift_def or_raise_def
        split: option.splits sum.splits prod.splits)
  then show ?thesis by (rule mrwc_same_pages [OF assms(1)])
qed

lemma park_site_pages_cong:
  "same_pages E w w1 \<Longrightarrow> fst (park_site E park w1) = fst (park_site E park w)"
  by (simp add: park_site_fst same_pages_def split: option.splits)

lemma park_loop_result:
  assumes "codec_ok E"
  shows "park_loop E parks acc w = (Inr sites, w') \<Longrightarrow>
         same_pages E w w' \<and>
         (\<exists>rs. sites = acc @ rs \<and> map (\<lambda>park. fst (park_site E park w)) parks = map Inr rs)"
proof (induction parks arbitrary: acc w)
  case Nil
  then show ?case by (simp add: py_lift_def same_pages_refl)
next
  case (Cons park parks)
  from Cons.prems obtain r w1 where
    step: "park_site E park w = (Inr r, w1)" and
    rest: "park_loop E parks (acc @ [r]) w1 = (Inr sites, w')"
    by (auto simp add: py_bind_def split: sum.splits prod.splits)
  have sp: "same_pages E w w1" using park_site_same_pages [OF assms step] .
  from Cons.IH [OF rest] obtain rs where
    sp': "same_pages E w1 w'" and sites: "sites = (acc @ [r]) @ rs" and
    m: "map (\<lambda>park. fst (park_site E park w1)) parks = map Inr rs"
    by blast
  have "map (\<lambda>park. fst (park_site E park w)) parks = map Inr rs"
    using m park_site_pages_cong [OF sp] by simp
  moreover have "fst (park_site E park w) = Inr r" using step by simp
  ultimately have "map (\<lambda>park. fst (park_site E park w)) (park # parks) = map Inr (r # rs)"
    by simp
  with sites same_pages_trans [OF sp sp'] show ?case by auto
qed

lemma park_loop_run:
  assumes "codec_ok E"
  shows "map (\<lambda>park. fst (park_site E park w)) parks = map Inr rs \<Longrightarrow>
         fst (park_loop E parks acc w) = Inr (acc @ rs)"
proof (induction parks arbitrary: acc w rs)
  case Nil
  then show ?case by (simp add: py_lift_def)
next
  case (Cons park parks)
  from Cons.prems obtain r rs' where rs: "rs = r # rs'" and
    h: "fst (park_site E park w) = Inr r" and
    t: "map (\<lambda>park. fst (park_site E park w)) parks = map Inr rs'"
    by (cases rs) auto
  obtain w1 where step: "park_site E park w = (Inr r, w1)"
    using h by (cases "park_site E park w") auto
  have sp: "same_pages E w w1" using park_site_same_pages [OF assms step] .
  have "map (\<lambda>park. fst (park_site E park w1)) parks = map Inr rs'"
    using t park_site_pages_cong [OF sp] by simp
  from Cons.IH [OF this, of "acc @ [r]"] show ?case
    using step rs by (simp add: py_bind_def)
qed

subsection \<open>The state page\<close>

lemma same_pages_log: "same_pages E w (w\<lparr>net_log := l\<rparr>)"
  unfolding same_pages_def by (intro allI mrwc_fst_cong) simp_all

lemma get_sites_for_state_unfold:
  assumes "http_get E state_url [] = Inr resp"
    and "BeautifulSoup E (JStr (strip resp)) = Inr soup"
    and "find E (Id ''list_parks'') soup = Some park_section"
  shows "get_sites_for_state E state_url w =
           park_loop E
             (find_all E (Class ''col-md-9 col-sm-9 col-xs-12 table-cell list_left'') park_section)
             [] (w\<lparr>net_log := net_log w @ [(state_url, [])]\<rparr>)"
  using assms
  by (simp add: get_sites_for_state_def py_bind_def requests_get_def py_lift_def or_raise_def)

subsection \<open>The small environment\<close>

lemma demo_codec: "demo_loads (demo_dumps m) = Some m"
  by (auto simp add: demo_loads_def demo_dumps_def)

lemma demo_codec_ok: "codec_ok demo_env"
  by (simp add: codec_ok_def demo_env_def demo_codec)

lemma stored_empty_world: "stored demo_env empty_world = JObj []"
  by (simp add: stored_def empty_world_def demo_env_def demo_loads_def)

lemma stored_world_with: "stored demo_env (world_with kvs) = JObj kvs"
  by (simp add: stored_def world_with_def demo_env_def demo_codec)

lemma guwc_miss:
  "stored E w = JObj kvs \<Longrightarrow> map_of kvs (capitalize state) = None \<Longrightarrow>
   get_url_with_cache E states_dict state w =
     (case states_dict state of
        None \<Rightarrow> (Inl KeyError, w)
      | Some state_url \<Rightarrow>
          if writable w
          then (Inr (JStr state_url),
                w\<lparr>cache_file := Content (json_dumps E
                      (JObj (AList.update (capitalize state) (JStr state_url) kvs)))\<rparr>)
          else (Inl OSError, w))"
  by (simp add: get_url_with_cache_def py_bind_def open_cache_stored py_lift_def or_raise_def
      save_cache_def update_conv' split: option.splits)

subsection \<open>The other cached lookups\<close>

lemma get_nearby_places_world:
  "snd (get_nearby_places E site w) =
     w\<lparr>net_log := net_log w @
        [(''http://www.mapquestapi.com/search/v2/radius'',
          [(''key'', API_Key E), (''origin'', zipcode site), (''radius'', ''10''),
           (''maxMatches'', ''10''), (''ambiguities'', ''ignore''), (''outFormat'', ''json'')])]\<rparr>"
  by (simp add: get_nearby_places_def py_bind_def requests_get_def py_lift_def split: sum.splits)

lemma get_nearby_places_answer:
  assumes "http_get E ''http://www.mapquestapi.com/search/v2/radius''
             [(''key'', API_Key E), (''origin'', zipcode site), (''radius'', ''10''),
              (''maxMatches'', ''10''), (''ambiguities'', ''ignore''), (''outFormat'', ''json'')]
           = Inr body"
    and "json_loads E body = Some nearby"
  shows "get_nearby_places E site w =
     (Inr nearby,
      w\<lparr>net_log := net_log w @
        [(''http://www.mapquestapi.com/search/v2/radius'',
          [(''key'', API_Key E), (''origin'', zipcode site), (''radius'', ''10''),
           (''maxMatches'', ''10''), (''ambiguities'', ''ignore''), (''outFormat'', ''json'')])]\<rparr>)"
  using assms
  by (simp add: get_nearby_places_def py_bind_def requests_get_def py_lift_def loads_def
      or_raise_def)

lemma gnwc_hit:
  "stored E w = JObj kvs \<Longrightarrow> map_of kvs (name site) = Some v \<Longrightarrow>
   get_nearby_with_cache E site w = (Inr v, w)"
  by (simp add: get_nearby_with_cache_def py_bind_def open_cache_stored py_lift_def or_raise_def)

lemma gnwc_miss:
  assumes "stored E w = JObj kvs" and "map_of kvs (name site) = None"
    and "get_nearby_places E site w = (Inr nearby, w1)" and "writable w"
  shows "get_nearby_with_cache E site w =
     (Inr nearby,
      w1\<lparr>cache_file := Content (json_dumps E (JObj (AList.update (name site) nearby kvs)))\<rparr>)"
proof -
  have "w1 = snd (get_nearby_places E site w)" using assms(3) by simp
  then have "writable w1" using assms(4) by (simp add: get_nearby_places_world)
  then show ?thesis
    using assms(1-3)
    by (simp add: get_nearby_with_cache_def py_bind_def open_cache_stored py_lift_def or_raise_def
        save_cache_def update_conv')
qed

lemma mrwc_file_unchanged:
  "http_get E url [] = Inl e \<Longrightarrow>
   cache_file (snd (make_request_with_cache E url w)) = cache_file w"
  by (simp add: make_request_with_cache_def py_bind_def open_cache_stored py_lift_def
      requests_get_def split: sum.splits)

lemma mrwc_miss_raises:
  "http_get E url [] = Inl e \<Longrightarrow> py_contains url (stored E w) = Inr False \<Longrightarrow>
   make_request_with_cache E url w = (Inl e, w\<lparr>net_log := net_log w @ [(url, [])]\<rparr>)"
  by (simp add: make_request_with_cache_def py_bind_def open_cache_stored py_lift_def
      requests_get_def)

lemma guwc_file_unchanged:
  "states_dict state = None \<Longrightarrow>
   cache_file (snd (get_url_with_cache E states_dict state w)) = cache_file w"
  by (simp add: get_url_with_cache_def py_bind_def open_cache_stored py_lift_def or_raise_def
      split: sum.splits)

lemma guwc_miss_raises:
  "states_dict state = None \<Longrightarrow> py_contains (capitalize state) (stored E w) = Inr False \<Longrightarrow>
   get_url_with_cache E states_dict state w = (Inl KeyError, w)"
  by (simp add: get_url_with_cache_def py_bind_def open_cache_stored py_lift_def or_raise_def)

lemma gnwc_file_unchanged:
  "fst (get_nearby_places E site w) = Inl e \<Longrightarrow>
   cache_file (snd (get_nearby_with_cache E site w)) = cache_file w"
  using get_nearby_places_world [of E site w]
  by (cases "get_nearby_places E site w")
     (simp add: get_nearby_with_cache_def py_bind_def open_cache_stored py_lift_def
      split: sum.splits)

lemma gnwc_miss_raises:
  "fst (get_nearby_places E site w) = Inl e \<Longrightarrow> py_contains (name site) (stored E w) = Inr False \<Longrightarrow>
   fst (get_nearby_with_cache E site w) = Inl e"
  by (cases "get_nearby_places E site w")
     (simp add: get_nearby_with_cache_def py_bind_def open_cache_stored py_lift_def)

subsection \<open>Runs in the small environment\<close>

lemma demo_strip_state: "strip '' state '' = ''state''"
  by code_simp

lemma demo_strip_isro: "strip ''page https://www.nps.gov/isro'' = ''page https://www.nps.gov/isro''"
  by code_simp

lemma demo_strip_slbe: "strip ''page https://www.nps.gov/slbe'' = ''page https://www.nps.gov/slbe''"
  by code_simp

lemma demo_site_of_page:
  "strip t = t \<Longrightarrow> site_of_page demo_env (JStr t) = Inr (demo_site t)"
  by (simp add: site_of_page_def find_text_def py_then_def or_raise_def demo_env_def demo_site_def)

lemma demo_state_page:
  "get_sites_for_state demo_env ''https://www.nps.gov/state/mi/index.htm'' w =
     park_loop demo_env [''/isro'', ''/slbe''] []
       (w\<lparr>net_log := net_log w @ [(''https://www.nps.gov/state/mi/index.htm'', [])]\<rparr>)"
proof -
  have g: "http_get demo_env ''https://www.nps.gov/state/mi/index.htm'' [] = Inr '' state ''"
    by (simp add: demo_env_def)
  have b: "BeautifulSoup demo_env (JStr (strip '' state '')) = Inr ''state''"
    by (simp add: demo_env_def demo_strip_state)
  have f: "find demo_env (Id ''list_parks'') ''state'' = Some ''state''"
    by (simp add: demo_env_def)
  have a: "find_all demo_env (Class ''col-md-9 col-sm-9 col-xs-12 table-cell list_left'') ''state''
             = [''/isro'', ''/slbe'']"
    by (simp add: demo_env_def)
  show ?thesis using get_sites_for_state_unfold [OF g b f, of w] by (simp only: a)
qed

lemma demo_park_site_fst:
  "fst (park_site demo_env park w) =
     (case fst (make_request_with_cache demo_env (''https://www.nps.gov'' @ park) w) of
        Inl e \<Rightarrow> Inl e
      | Inr text \<Rightarrow> site_of_page demo_env text)"
  by (simp add: park_site_fst) (simp add: demo_env_def)

lemma demo_fetch_isro:
  assumes "stored demo_env w = JObj []" and "writable w"
  shows "fst (make_request_with_cache demo_env ''https://www.nps.gov/isro'' w)
           = Inr (JStr ''page https://www.nps.gov/isro'')"
proof -
  have "http_get demo_env ''https://www.nps.gov/isro'' [] = Inr ''page https://www.nps.gov/isro''"
    by (simp add: demo_env_def)
  then show ?thesis
    using mrwc_miss [OF assms(1), of "''https://www.nps.gov/isro''"] assms(2) by simp
qed

lemma demo_fetch_slbe:
  assumes "stored demo_env w = JObj []" and "writable w"
  shows "fst (make_request_with_cache demo_env ''https://www.nps.gov/slbe'' w)
           = Inr (JStr ''page https://www.nps.gov/slbe'')"
proof -
  have "http_get demo_env ''https://www.nps.gov/slbe'' [] = Inr ''page https://www.nps.gov/slbe''"
    by (simp add: demo_env_def)
  then show ?thesis
    using mrwc_miss [OF assms(1), of "''https://www.nps.gov/slbe''"] assms(2) by simp
qed

lemma demo_parks_empty_world:
  "map (\<lambda>park. fst (park_site demo_env park empty_world)) [''/isro'', ''/slbe''] =
   map Inr [demo_site ''page https://www.nps.gov/isro'', demo_site ''page https://www.nps.gov/slbe'']"
proof -
  have w: "writable empty_world" by (simp add: empty_world_def)
  have 1: "fst (park_site demo_env ''/isro'' empty_world)
             = Inr (demo_site ''page https://www.nps.gov/isro'')"
    using demo_fetch_isro [OF stored_empty_world w]
    by (simp add: demo_park_site_fst demo_site_of_page demo_strip_isro)
  have 2: "fst (park_site demo_env ''/slbe'' empty_world)
             = Inr (demo_site ''page https://www.nps.gov/slbe'')"
    using demo_fetch_slbe [OF stored_empty_world w]
    by (simp add: demo_park_site_fst demo_site_of_page demo_strip_slbe)
  show ?thesis by (simp only: list.map 1 2)
qed

lemma demo_sites_empty_world:
  "fst (get_sites_for_state demo_env ''https://www.nps.gov/state/mi/index.htm'' empty_world) =
     Inr [demo_site ''page https://www.nps.gov/isro'', demo_site ''page https://www.nps.gov/slbe'']"
proof -
  let ?w0 = "empty_world\<lparr>net_log :=
      net_log empty_world @ [(''https://www.nps.gov/state/mi/index.htm'', [])]\<rparr>"
  have eq0: "fst (park_site demo_env park ?w0) = fst (park_site demo_env park empty_world)" for park
    by (rule park_site_pages_cong [OF same_pages_log])
  have "map (\<lambda>park. fst (park_site demo_env park ?w0)) [''/isro'', ''/slbe''] =
        map Inr [demo_site ''page https://www.nps.gov/isro'',
                 demo_site ''page https://www.nps.gov/slbe'']"
    using demo_parks_empty_world by (simp only: eq0)
  from park_loop_run [OF demo_codec_ok this, of "[]"] show ?thesis
    by (simp only: demo_state_page append_Nil)
qed

lemma demo_nearby_places_fails:
  "fst (get_nearby_places demo_env (demo_site ''00000'') empty_world) = Inl JSONDecodeError"
  by (simp add: get_nearby_places_def py_bind_def requests_get_def py_lift_def loads_def
      or_raise_def demo_env_def demo_loads_def demo_site_def)

lemma demo_park_site_hit:
  assumes "stored demo_env w = JObj kvs"
    and "map_of kvs (''https://www.nps.gov'' @ park) = Some (JStr t)"
    and "strip t = t"
  shows "park_site demo_env park w = (Inr (demo_site t), w)"
proof -
  have f: "find demo_env (Tag ''a'') park = Some park" by (simp add: demo_env_def)
  have a: "node_attr demo_env ''href'' park = Some park" by (simp add: demo_env_def)
  show ?thesis
    using mrwc_hit [OF assms(1,2)] demo_site_of_page [OF assms(3)]
    by (simp add: park_site_def get_site_instance_def py_bind_def py_lift_def or_raise_def f a)
qed

section \<open>Properties of the cache file\<close>

text \<open>
  C4. \<^verbatim>\<open>open_cache\<close> never raises and leaves the world as it is. It returns the empty
  dict when the file is absent, cannot be read, or holds text that \<^verbatim>\<open>json.loads\<close>
  rejects (a truncated file, text that is not JSON), and the decoded value when the file
  is read and decoded.
\<close>

theorem open_cache_never_raises:
  "open_cache E w =
     (Inr (case cache_file w of
             Absent \<Rightarrow> JObj []
           | Unreadable \<Rightarrow> JObj []
           | Content s \<Rightarrow> (case json_loads E s of None \<Rightarrow> JObj [] | Some m \<Rightarrow> m)),
      w)"
  using open_cache_stored [of E w] by (simp add: stored_def)

text \<open>
  C5. Saving a store and then loading gives the store back: \<^verbatim>\<open>save_cache\<close> replaces
  whatever the file held by the encoding of \<open>m\<close>, and \<^verbatim>\<open>open_cache\<close> then returns \<open>m\<close>,
  for every \<open>m\<close> that \<^verbatim>\<open>json.loads\<close> decodes from its own encoding, when the file can
  be written.
\<close>

theorem save_cache_then_open_cache:
  assumes "json_loads E (json_dumps E m) = Some m" and "writable w"
  shows "\<exists>w1. save_cache E m w = (Inr (), w1) \<and>
              cache_file w1 = Content (json_dumps E m) \<and>
              open_cache E w1 = (Inr m, w1)"
  using assms by (simp add: save_cache_def open_cache_stored stored_def)

theorem save_cache_then_open_cache_witness:
  "json_loads demo_env (json_dumps demo_env (JObj [(''Michigan'', JStr ''u'')]))
     = Some (JObj [(''Michigan'', JStr ''u'')]) \<and>
   writable (world_with [(''Ohio'', JNull)]) \<and>
   (\<exists>w1. save_cache demo_env (JObj [(''Michigan'', JStr ''u'')]) (world_with [(''Ohio'', JNull)])
            = (Inr (), w1) \<and>
          cache_file w1 = Content (json_dumps demo_env (JObj [(''Michigan'', JStr ''u'')])) \<and>
          open_cache demo_env w1 = (Inr (JObj [(''Michigan'', JStr ''u'')]), w1))"
proof -
  have c: "json_loads demo_env (json_dumps demo_env (JObj [(''Michigan'', JStr ''u'')]))
     = Some (JObj [(''Michigan'', JStr ''u'')])"
    by (simp add: demo_env_def demo_codec)
  have w: "writable (world_with [(''Ohio'', JNull)])"
    by (simp add: world_with_def)
  show ?thesis
    using c w save_cache_then_open_cache [OF c w] by simp
qed

section \<open>Properties of the cached fetch\<close>

text \<open>
  C1. Calling \<^verbatim>\<open>make_request_with_cache\<close> twice with the same URL sends one request.
  On a miss (the cache is a dict without the URL), when the server answers and the file
  can be written, the first call sends the request, stores the body under the URL,
  writes the file and returns the body; the second call, in the world the first one left,
  returns the same value and changes nothing: no request is added to the log.
\<close>

theorem make_request_with_cache_twice:
  assumes "codec_ok E"
    and "fst (open_cache E w) = Inr (JObj kvs)"
    and "map_of kvs url = None"
    and "http_get E url [] = Inr body"
    and "writable w"
  shows "\<exists>w1. make_request_with_cache E url w = (Inr (JStr body), w1) \<and>
              net_log w1 = net_log w @ [(url, [])] \<and>
              cache_file w1 = Content (json_dumps E (JObj (AList.update url (JStr body) kvs))) \<and>
              fst (open_cache E w1) = Inr (JObj (AList.update url (JStr body) kvs)) \<and>
              make_request_with_cache E url w1 = (Inr (JStr body), w1)"
proof -
  let ?d = "JObj (AList.update url (JStr body) kvs)"
  let ?w1 = "w\<lparr>net_log := net_log w @ [(url, [])], cache_file := Content (json_dumps E ?d)\<rparr>"
  have obj: "stored E w = JObj kvs" using assms(2) by (simp add: open_cache_stored)
  have first: "make_request_with_cache E url w = (Inr (JStr body), ?w1)"
    using mrwc_miss [OF obj assms(3)] assms(4,5) by simp
  have obj1: "stored E ?w1 = ?d"
    using assms(1) by (simp add: stored_def codec_ok_def)
  have "map_of (AList.update url (JStr body) kvs) url = Some (JStr body)"
    by (simp add: update_conv')
  from mrwc_hit [OF obj1 this]
  have second: "make_request_with_cache E url ?w1 = (Inr (JStr body), ?w1)" .
  show ?thesis
    using first second obj1 by (intro exI [of _ ?w1]) (simp add: open_cache_stored)
qed

theorem make_request_with_cache_twice_witness:
  "codec_ok demo_env \<and>
   fst (open_cache demo_env empty_world) = Inr (JObj []) \<and>
   map_of [] ''https://www.nps.gov/index.htm'' = (None :: json option) \<and>
   http_get demo_env ''https://www.nps.gov/index.htm'' [] = Inr ''page https://www.nps.gov/index.htm'' \<and>
   writable empty_world \<and>
   (\<exists>w1. make_request_with_cache demo_env ''https://www.nps.gov/index.htm'' empty_world
            = (Inr (JStr ''page https://www.nps.gov/index.htm''), w1) \<and>
          net_log w1 = net_log empty_world @ [(''https://www.nps.gov/index.htm'', [])] \<and>
          cache_file w1 = Content (json_dumps demo_env (JObj (AList.update
            ''https://www.nps.gov/index.htm'' (JStr ''page https://www.nps.gov/index.htm'') []))) \<and>
          fst (open_cache demo_env w1) = Inr (JObj (AList.update
            ''https://www.nps.gov/index.htm'' (JStr ''page https://www.nps.gov/index.htm'') [])) \<and>
          make_request_with_cache demo_env ''https://www.nps.gov/index.htm'' w1
            = (Inr (JStr ''page https://www.nps.gov/index.htm''), w1))"
proof -
  have h1: "codec_ok demo_env" by (rule demo_codec_ok)
  have h2: "fst (open_cache demo_env empty_world) = Inr (JObj [])"
    by (simp add: open_cache_stored stored_empty_world)
  have h3: "map_of [] ''https://www.nps.gov/index.htm'' = (None :: json option)" by simp
  have h4: "http_get demo_env ''https://www.nps.gov/index.htm'' []
              = Inr ''page https://www.nps.gov/index.htm''"
    by (simp add: demo_env_def)
  have h5: "writable empty_world" by (simp add: empty_world_def)
  from make_request_with_cache_twice [OF h1 h2 h3 h4 h5] h1 h2 h3 h4 h5
  show ?thesis by blast
qed

section \<open>Properties of the state lookup\<close>

text \<open>
  C10. On a hit, \<^verbatim>\<open>get_url_with_cache\<close> does not consult the catalog: when the cache is
  a dict that has the capitalized state name as a key, the call returns the cached value
  and leaves the world as it is, whatever the catalog \<open>states_dict\<close> holds, also when it
  lacks the state.
\<close>

theorem get_url_with_cache_hit_ignores_catalog:
  assumes "fst (open_cache E w) = Inr (JObj kvs)"
    and "map_of kvs (capitalize state) = Some v"
  shows "get_url_with_cache E states_dict state w = (Inr v, w)"
  using assms
  by (simp add: get_url_with_cache_def py_bind_def open_cache_stored py_lift_def or_raise_def)

theorem get_url_with_cache_hit_ignores_catalog_witness:
  "fst (open_cache demo_env (world_with [(''Atlantis'', JStr ''https://x/atlantis'')]))
     = Inr (JObj [(''Atlantis'', JStr ''https://x/atlantis'')]) \<and>
   map_of [(''Atlantis'', JStr ''https://x/atlantis'')] (capitalize ''atlantis'')
     = Some (JStr ''https://x/atlantis'') \<and>
   Map.empty (lower ''atlantis'') = (None :: string option) \<and>
   get_url_with_cache demo_env Map.empty ''atlantis''
       (world_with [(''Atlantis'', JStr ''https://x/atlantis'')])
     = (Inr (JStr ''https://x/atlantis''), world_with [(''Atlantis'', JStr ''https://x/atlantis'')])"
proof -
  have c: "capitalize ''atlantis'' = ''Atlantis''" by code_simp
  have h1: "fst (open_cache demo_env (world_with [(''Atlantis'', JStr ''https://x/atlantis'')]))
     = Inr (JObj [(''Atlantis'', JStr ''https://x/atlantis'')])"
    by (simp add: open_cache_stored stored_world_with)
  have h2: "map_of [(''Atlantis'', JStr ''https://x/atlantis'')] (capitalize ''atlantis'')
     = Some (JStr ''https://x/atlantis'')"
    by (simp add: c)
  from get_url_with_cache_hit_ignores_catalog [OF h1 h2, of Map.empty] h1 h2
  show ?thesis by simp
qed

text \<open>
  C7. From an empty cache, \<^verbatim>\<open>get_url_with_cache\<close> for \<^verbatim>\<open>michigan\<close>, with a catalog that
  maps \<^verbatim>\<open>michigan\<close> to \<open>u\<close>, returns \<open>u\<close> when the file can be written; afterwards the
  cache holds exactly the entry \<^verbatim>\<open>Michigan\<close>, the capitalized input, with value \<open>u\<close>. No
  request is sent.
\<close>

theorem get_url_with_cache_michigan:
  assumes "codec_ok E"
    and "fst (open_cache E w) = Inr (JObj [])"
    and "states_dict ''michigan'' = Some u"
    and "writable w"
  shows "\<exists>w1. get_url_with_cache E states_dict ''michigan'' w = (Inr (JStr u), w1) \<and>
              fst (open_cache E w1) = Inr (JObj [(''Michigan'', JStr u)]) \<and>
              net_log w1 = net_log w"
proof -
  have c: "capitalize ''michigan'' = ''Michigan''" by code_simp
  let ?w1 = "w\<lparr>cache_file := Content (json_dumps E (JObj [(''Michigan'', JStr u)]))\<rparr>"
  have obj: "stored E w = JObj []" using assms(2) by (simp add: open_cache_stored)
  have "get_url_with_cache E states_dict ''michigan'' w = (Inr (JStr u), ?w1)"
    using guwc_miss [OF obj, of "''michigan''" states_dict] assms(3,4) by (simp add: c)
  moreover have "stored E ?w1 = JObj [(''Michigan'', JStr u)]"
    by (rule stored_written [OF assms(1)])
  ultimately show ?thesis
    by (intro exI [of _ ?w1]) (simp add: open_cache_stored)
qed

theorem get_url_with_cache_michigan_witness:
  "codec_ok demo_env \<and>
   fst (open_cache demo_env empty_world) = Inr (JObj []) \<and>
   [''michigan'' \<mapsto> ''https://x/state/mi''] ''michigan'' = Some ''https://x/state/mi'' \<and>
   writable empty_world \<and>
   (\<exists>w1. get_url_with_cache demo_env [''michigan'' \<mapsto> ''https://x/state/mi''] ''michigan''
            empty_world = (Inr (JStr ''https://x/state/mi''), w1) \<and>
          fst (open_cache demo_env w1) = Inr (JObj [(''Michigan'', JStr ''https://x/state/mi'')]) \<and>
          net_log w1 = net_log empty_world)"
proof -
  have h1: "codec_ok demo_env" by (rule demo_codec_ok)
  have h2: "fst (open_cache demo_env empty_world) = Inr (JObj [])"
    by (simp add: open_cache_stored stored_empty_world)
  have h3: "[''michigan'' \<mapsto> ''https://x/state/mi''] ''michigan'' = Some ''https://x/state/mi''"
    by simp
  have h4: "writable empty_world" by (simp add: empty_world_def)
  from get_url_with_cache_michigan
         [where states_dict = "[''michigan'' \<mapsto> ''https://x/state/mi'']", OF h1 h2 h3 h4]
       h1 h2 h3 h4
  show ?thesis by blast
qed

text \<open>
  C3. The lookup in the catalog is not case-insensitive: \<^verbatim>\<open>get_url_with_cache\<close> indexes
  \<open>states_dict\<close> with the state name as given. With an empty cache and a catalog that
  holds \<^verbatim>\<open>michigan\<close>, the call for \<^verbatim>\<open>Michigan\<close> raises \<^verbatim>\<open>KeyError\<close>, although the
  lower-cased name is a key of the catalog.
\<close>

theorem get_url_with_cache_mixed_case_raises:
  "lower ''Michigan'' = ''michigan'' \<and>
   [''michigan'' \<mapsto> ''https://www.nps.gov/state/mi/index.htm''] (lower ''Michigan'')
     = Some ''https://www.nps.gov/state/mi/index.htm'' \<and>
   get_url_with_cache demo_env [''michigan'' \<mapsto> ''https://www.nps.gov/state/mi/index.htm'']
       ''Michigan'' empty_world
     = (Inl KeyError, empty_world)"
proof -
  have l: "lower ''Michigan'' = ''michigan''" by code_simp
  have c: "capitalize ''Michigan'' = ''Michigan''" by code_simp
  have "map_of [] (capitalize ''Michigan'') = (None :: json option)" by simp
  from guwc_miss [OF stored_empty_world this] show ?thesis
    by (simp add: l)
qed

section \<open>Properties of the nearby-places lookup\<close>

text \<open>
  C8. \<^verbatim>\<open>get_nearby_with_cache\<close> keys the cache by the name of the site as it is. When
  the cache is a dict that maps the name to \<open>v\<close>, the call returns \<open>v\<close> and leaves the world
  as it is: no request is sent. When the name is missing, the API answers the request
  for the zip code of the site with \<open>body\<close>, \<^verbatim>\<open>json.loads\<close> decodes \<open>body\<close> to
  \<open>nearby\<close>, and the file can be written, the call sends that one request, stores
  \<open>nearby\<close> under the name, writes the file and returns \<open>nearby\<close>.
\<close>

theorem get_nearby_with_cache_keyed_by_name:
  assumes "fst (open_cache E w) = Inr (JObj kvs)"
  shows "(map_of kvs (name site) = Some v \<longrightarrow> get_nearby_with_cache E site w = (Inr v, w)) \<and>
         (map_of kvs (name site) = None \<and>
          http_get E ''http://www.mapquestapi.com/search/v2/radius''
            [(''key'', API_Key E), (''origin'', zipcode site), (''radius'', ''10''),
             (''maxMatches'', ''10''), (''ambiguities'', ''ignore''), (''outFormat'', ''json'')]
            = Inr body \<and>
          json_loads E body = Some nearby \<and>
          writable w \<longrightarrow>
            get_nearby_with_cache E site w =
              (Inr nearby,
               w\<lparr>net_log := net_log w @
                    [(''http://www.mapquestapi.com/search/v2/radius'',
                      [(''key'', API_Key E), (''origin'', zipcode site), (''radius'', ''10''),
                       (''maxMatches'', ''10''), (''ambiguities'', ''ignore''),
                       (''outFormat'', ''json'')])],
                  cache_file :=
                    Content (json_dumps E (JObj (AList.update (name site) nearby kvs)))\<rparr>))"
proof (intro conjI impI)
  have obj: "stored E w = JObj kvs" using assms by (simp add: open_cache_stored)
  {
    assume "map_of kvs (name site) = Some v"
    then show "get_nearby_with_cache E site w = (Inr v, w)"
      by (rule gnwc_hit [OF obj])
  next
    assume h: "map_of kvs (name site) = None \<and>
          http_get E ''http://www.mapquestapi.com/search/v2/radius''
            [(''key'', API_Key E), (''origin'', zipcode site), (''radius'', ''10''),
             (''maxMatches'', ''10''), (''ambiguities'', ''ignore''), (''outFormat'', ''json'')]
            = Inr body \<and>
          json_loads E body = Some nearby \<and>
          writable w"
    then have none: "map_of kvs (name site) = None" and wr: "writable w"
      and get: "http_get E ''http://www.mapquestapi.com/search/v2/radius''
            [(''key'', API_Key E), (''origin'', zipcode site), (''radius'', ''10''),
             (''maxMatches'', ''10''), (''ambiguities'', ''ignore''), (''outFormat'', ''json'')]
            = Inr body"
      and dec: "json_loads E body = Some nearby"
      by simp_all
    have places: "get_nearby_places E site w =
       (Inr nearby,
        w\<lparr>net_log := net_log w @
          [(''http://www.mapquestapi.com/search/v2/radius'',
            [(''key'', API_Key E), (''origin'', zipcode site), (''radius'', ''10''),
             (''maxMatches'', ''10''), (''ambiguities'', ''ignore''), (''outFormat'', ''json'')])]\<rparr>)"
      by (rule get_nearby_places_answer [OF get dec])
    show "get_nearby_with_cache E site w =
              (Inr nearby,
               w\<lparr>net_log := net_log w @
                    [(''http://www.mapquestapi.com/search/v2/radius'',
                      [(''key'', API_Key E), (''origin'', zipcode site), (''radius'', ''10''),
                       (''maxMatches'', ''10''), (''ambiguities'', ''ignore''),
                       (''outFormat'', ''json'')])],
                  cache_file :=
                    Content (json_dumps E (JObj (AList.update (name site) nearby kvs)))\<rparr>)"
      by (rule gnwc_miss [OF obj none places wr])
  }
qed

theorem get_nearby_with_cache_keyed_by_name_witness:
  "fst (open_cache demo_env (world_with [(''Yellowstone'', JObj [(''searchResults'', JArr [])])]))
     = Inr (JObj [(''Yellowstone'', JObj [(''searchResults'', JArr [])])]) \<and>
   map_of [(''Yellowstone'', JObj [(''searchResults'', JArr [])])] (name (demo_site ''Yellowstone''))
     = Some (JObj [(''searchResults'', JArr [])]) \<and>
   get_nearby_with_cache demo_env (demo_site ''Yellowstone'')
       (world_with [(''Yellowstone'', JObj [(''searchResults'', JArr [])])])
     = (Inr (JObj [(''searchResults'', JArr [])]),
        world_with [(''Yellowstone'', JObj [(''searchResults'', JArr [])])]) \<and>
   fst (open_cache demo_env empty_world) = Inr (JObj []) \<and>
   map_of [] (name (demo_site ''82190'')) = (None :: json option) \<and>
   http_get demo_env ''http://www.mapquestapi.com/search/v2/radius''
     [(''key'', API_Key demo_env), (''origin'', zipcode (demo_site ''82190'')), (''radius'', ''10''),
      (''maxMatches'', ''10''), (''ambiguities'', ''ignore''), (''outFormat'', ''json'')]
     = Inr (demo_dumps (JObj [(''searchResults'', JArr [])])) \<and>
   json_loads demo_env (demo_dumps (JObj [(''searchResults'', JArr [])]))
     = Some (JObj [(''searchResults'', JArr [])]) \<and>
   writable empty_world \<and>
   get_nearby_with_cache demo_env (demo_site ''82190'') empty_world
     = (Inr (JObj [(''searchResults'', JArr [])]),
        empty_world\<lparr>net_log := net_log empty_world @
          [(''http://www.mapquestapi.com/search/v2/radius'',
            [(''key'', ''key''), (''origin'', ''82190''), (''radius'', ''10''),
             (''maxMatches'', ''10''), (''ambiguities'', ''ignore''), (''outFormat'', ''json'')])],
          cache_file := Content (json_dumps demo_env
            (JObj [(''82190'', JObj [(''searchResults'', JArr [])])]))\<rparr>)"
proof -
  let ?v = "JObj [(''searchResults'', JArr [])]"
  let ?wY = "world_with [(''Yellowstone'', ?v)]"
  let ?params = "[(''key'', API_Key demo_env), (''origin'', zipcode (demo_site ''82190'')),
      (''radius'', ''10''), (''maxMatches'', ''10''), (''ambiguities'', ''ignore''),
      (''outFormat'', ''json'')]"
  have a1: "fst (open_cache demo_env ?wY) = Inr (JObj [(''Yellowstone'', ?v)])"
    by (simp add: open_cache_stored stored_world_with)
  have a2: "map_of [(''Yellowstone'', ?v)] (name (demo_site ''Yellowstone'')) = Some ?v"
    by (simp add: demo_site_def)
  have hit: "get_nearby_with_cache demo_env (demo_site ''Yellowstone'') ?wY = (Inr ?v, ?wY)"
    by (rule mp [OF conjunct1 [OF get_nearby_with_cache_keyed_by_name [OF a1]] a2])
  have b1: "fst (open_cache demo_env empty_world) = Inr (JObj [])"
    by (simp add: open_cache_stored stored_empty_world)
  have b2: "map_of [] (name (demo_site ''82190'')) = (None :: json option)" by simp
  have b3: "http_get demo_env ''http://www.mapquestapi.com/search/v2/radius'' ?params
              = Inr (demo_dumps ?v)"
    by (simp add: demo_env_def demo_site_def)
  have b4: "json_loads demo_env (demo_dumps ?v) = Some ?v"
    by (simp add: demo_env_def demo_codec)
  have b5: "writable empty_world" by (simp add: empty_world_def)
  have miss: "get_nearby_with_cache demo_env (demo_site ''82190'') empty_world =
      (Inr ?v,
       empty_world\<lparr>net_log := net_log empty_world @
           [(''http://www.mapquestapi.com/search/v2/radius'', ?params)],
         cache_file := Content (json_dumps demo_env
           (JObj (AList.update (name (demo_site ''82190'')) ?v [])))\<rparr>)"
    by (rule mp [OF conjunct2 [OF get_nearby_with_cache_keyed_by_name
                   [OF b1, where body = "demo_dumps (JObj [(''searchResults'', JArr [])])"]]])
       (intro conjI b2 b3 b4 b5)
  have n: "AList.update (name (demo_site ''82190'')) ?v [] = [(''82190'', ?v)]"
    by (simp add: demo_site_def)
  have p: "?params = [(''key'', ''key''), (''origin'', ''82190''), (''radius'', ''10''),
             (''maxMatches'', ''10''), (''ambiguities'', ''ignore''), (''outFormat'', ''json'')]"
    by (simp add: demo_env_def demo_site_def)
  have miss': "get_nearby_with_cache demo_env (demo_site ''82190'') empty_world
     = (Inr ?v,
        empty_world\<lparr>net_log := net_log empty_world @
          [(''http://www.mapquestapi.com/search/v2/radius'',
            [(''key'', ''key''), (''origin'', ''82190''), (''radius'', ''10''),
             (''maxMatches'', ''10''), (''ambiguities'', ''ignore''), (''outFormat'', ''json'')])],
          cache_file := Content (json_dumps demo_env (JObj [(''82190'', ?v)]))\<rparr>)"
    using miss unfolding n p .
  show ?thesis
    by (intro conjI a1 a2 hit b1 b2 b3 b4 b5 miss')
qed

section \<open>Failures\<close>

text \<open>
  C6. A fetch or lookup that raises stores nothing. If the server fails for the URL,
  \<^verbatim>\<open>make_request_with_cache\<close> leaves the cache file as it was, and on a miss it raises
  the error of the request. If the catalog lacks the state (the call for \<^verbatim>\<open>Atlantis\<close>),
  \<^verbatim>\<open>get_url_with_cache\<close> leaves the cache file as it was, and on a miss it raises
  \<^verbatim>\<open>KeyError\<close> with the world unchanged. If the API request or the decoding of its answer
  fails, \<^verbatim>\<open>get_nearby_with_cache\<close> leaves the cache file as it was, and on a miss it
  raises that error.
\<close>

theorem failed_fetch_is_not_cached:
  assumes "fst (open_cache E w) = Inr d"
  shows
    "(http_get E url [] = Inl e \<longrightarrow>
        cache_file (snd (make_request_with_cache E url w)) = cache_file w \<and>
        (py_contains url d = Inr False \<longrightarrow>
           make_request_with_cache E url w = (Inl e, w\<lparr>net_log := net_log w @ [(url, [])]\<rparr>))) \<and>
     (states_dict state = None \<longrightarrow>
        cache_file (snd (get_url_with_cache E states_dict state w)) = cache_file w \<and>
        (py_contains (capitalize state) d = Inr False \<longrightarrow>
           get_url_with_cache E states_dict state w = (Inl KeyError, w))) \<and>
     (fst (get_nearby_places E site w) = Inl e' \<longrightarrow>
        cache_file (snd (get_nearby_with_cache E site w)) = cache_file w \<and>
        (py_contains (name site) d = Inr False \<longrightarrow>
           fst (get_nearby_with_cache E site w) = Inl e'))"
proof -
  have d: "stored E w = d" using assms by (simp add: open_cache_stored)
  show ?thesis
    using mrwc_file_unchanged [of E url e w] mrwc_miss_raises [of E url e w]
      guwc_file_unchanged [of states_dict state E w] guwc_miss_raises [of states_dict state E w]
      gnwc_file_unchanged [of E site w e'] gnwc_miss_raises [of E site w e']
    unfolding d by blast
qed

theorem failed_fetch_is_not_cached_witness:
  "fst (open_cache demo_env empty_world) = Inr (JObj []) \<and>
   http_get demo_env ''https://down.example'' [] = Inl RequestException \<and>
   py_contains ''https://down.example'' (JObj []) = Inr False \<and>
   cache_file (snd (make_request_with_cache demo_env ''https://down.example'' empty_world))
     = cache_file empty_world \<and>
   make_request_with_cache demo_env ''https://down.example'' empty_world
     = (Inl RequestException,
        empty_world\<lparr>net_log := net_log empty_world @ [(''https://down.example'', [])]\<rparr>) \<and>
   [''michigan'' \<mapsto> ''https://x/state/mi''] ''Atlantis'' = None \<and>
   py_contains (capitalize ''Atlantis'') (JObj []) = Inr False \<and>
   cache_file (snd (get_url_with_cache demo_env [''michigan'' \<mapsto> ''https://x/state/mi'']
                      ''Atlantis'' empty_world))
     = cache_file empty_world \<and>
   get_url_with_cache demo_env [''michigan'' \<mapsto> ''https://x/state/mi''] ''Atlantis'' empty_world
     = (Inl KeyError, empty_world) \<and>
   fst (get_nearby_places demo_env (demo_site ''00000'') empty_world) = Inl JSONDecodeError \<and>
   py_contains (name (demo_site ''00000'')) (JObj []) = Inr False \<and>
   cache_file (snd (get_nearby_with_cache demo_env (demo_site ''00000'') empty_world))
     = cache_file empty_world \<and>
   fst (get_nearby_with_cache demo_env (demo_site ''00000'') empty_world) = Inl JSONDecodeError"
proof -
  have h: "fst (open_cache demo_env empty_world) = Inr (JObj [])"
    by (simp add: open_cache_stored stored_empty_world)
  have a1: "http_get demo_env ''https://down.example'' [] = Inl RequestException"
    by (simp add: demo_env_def)
  have a2: "py_contains ''https://down.example'' (JObj []) = Inr False" by simp
  have b1: "[''michigan'' \<mapsto> ''https://x/state/mi''] ''Atlantis'' = None" by simp
  have b2: "py_contains (capitalize ''Atlantis'') (JObj []) = Inr False" by simp
  have c1: "fst (get_nearby_places demo_env (demo_site ''00000'') empty_world) = Inl JSONDecodeError"
    by (rule demo_nearby_places_fails)
  have c2: "py_contains (name (demo_site ''00000'')) (JObj []) = Inr False" by simp
  from failed_fetch_is_not_cached
         [where E = demo_env and w = empty_world and d = "JObj []"
            and url = "''https://down.example''" and e = RequestException
            and states_dict = "[''michigan'' \<mapsto> ''https://x/state/mi'']"
            and state = "''Atlantis''" and site = "demo_site ''00000''" and e' = JSONDecodeError,
          OF h]
    h a1 a2 b1 b2 c1 c2
  show ?thesis by blast
qed

section \<open>Properties of the site list\<close>

text \<open>
  C9. For a state page whose park list has the entries \<open>park_list\<close>, in document order:
  when the body of the loop yields a record for every entry (in the world the call starts
  in), \<^verbatim>\<open>get_sites_for_state\<close> returns these records in the order of the entries; and a
  call that returns gives as many records as there are entries, the record at each
  position being the one of the entry at that position. A second call, in the world the
  first one left, returns the same list. The \<^verbatim>\<open>json\<close> module is taken to decode what it
  encoded, and the server to serve the same state page.
\<close>

theorem get_sites_for_state_document_order:
  assumes "codec_ok E"
    and "http_get E state_url [] = Inr resp"
    and "BeautifulSoup E (JStr (strip resp)) = Inr soup"
    and "find E (Id ''list_parks'') soup = Some park_section"
    and "find_all E (Class ''col-md-9 col-sm-9 col-xs-12 table-cell list_left'') park_section
           = park_list"
  shows "(map (\<lambda>park. fst (park_site E park w)) park_list = map Inr rs \<longrightarrow>
            fst (get_sites_for_state E state_url w) = Inr rs) \<and>
         (get_sites_for_state E state_url w = (Inr sites, w') \<longrightarrow>
            length sites = length park_list \<and>
            (\<forall>i < length park_list. fst (park_site E (park_list ! i) w) = Inr (sites ! i)) \<and>
            fst (get_sites_for_state E state_url w') = Inr sites)"
proof (intro conjI impI)
  let ?w0 = "w\<lparr>net_log := net_log w @ [(state_url, [])]\<rparr>"
  have eq0: "fst (park_site E park ?w0) = fst (park_site E park w)" for park
    by (rule park_site_pages_cong [OF same_pages_log])
  assume "map (\<lambda>park. fst (park_site E park w)) park_list = map Inr rs"
  then have "map (\<lambda>park. fst (park_site E park ?w0)) park_list = map Inr rs"
    by (simp only: eq0)
  from park_loop_run [OF assms(1) this, of "[]"]
  show "fst (get_sites_for_state E state_url w) = Inr rs"
    using get_sites_for_state_unfold [OF assms(2-4), of w] assms(5) by simp
next
  let ?w0 = "w\<lparr>net_log := net_log w @ [(state_url, [])]\<rparr>"
  let ?w0' = "w'\<lparr>net_log := net_log w' @ [(state_url, [])]\<rparr>"
  assume ret: "get_sites_for_state E state_url w = (Inr sites, w')"
  have run: "park_loop E park_list [] ?w0 = (Inr sites, w')"
    using get_sites_for_state_unfold [OF assms(2-4), of w] assms(5) ret by simp
  from park_loop_result [OF assms(1) run]
  have sp: "same_pages E ?w0 w'"
    and m0: "map (\<lambda>park. fst (park_site E park ?w0)) park_list = map Inr sites"
    by simp_all
  have eq0: "fst (park_site E park ?w0) = fst (park_site E park w)" for park
    by (rule park_site_pages_cong [OF same_pages_log])
  have m: "map (\<lambda>park. fst (park_site E park w)) park_list = map Inr sites"
    using m0 by (simp only: eq0)
  show len: "length sites = length park_list"
    using arg_cong [OF m, of length] by (simp only: length_map)
  show "\<forall>i < length park_list. fst (park_site E (park_list ! i) w) = Inr (sites ! i)"
  proof (intro allI impI)
    fix i assume i: "i < length park_list"
    have "map (\<lambda>park. fst (park_site E park w)) park_list ! i = map Inr sites ! i"
      by (simp only: m)
    then show "fst (park_site E (park_list ! i) w) = Inr (sites ! i)"
      using i len by (simp only: nth_map)
  qed
  have sp': "same_pages E ?w0 ?w0'"
    by (rule same_pages_trans [OF sp same_pages_log])
  have eq1: "fst (park_site E park ?w0') = fst (park_site E park ?w0)" for park
    by (rule park_site_pages_cong [OF sp'])
  have "map (\<lambda>park. fst (park_site E park ?w0')) park_list = map Inr sites"
    using m0 by (simp only: eq1)
  from park_loop_run [OF assms(1) this, of "[]"]
  show "fst (get_sites_for_state E state_url w') = Inr sites"
    using get_sites_for_state_unfold [OF assms(2-4), of w'] assms(5) by simp
qed

theorem get_sites_for_state_document_order_witness:
  "codec_ok demo_env \<and>
   http_get demo_env ''https://www.nps.gov/state/mi/index.htm'' [] = Inr '' state '' \<and>
   BeautifulSoup demo_env (JStr (strip '' state '')) = Inr ''state'' \<and>
   find demo_env (Id ''list_parks'') ''state'' = Some ''state'' \<and>
   find_all demo_env (Class ''col-md-9 col-sm-9 col-xs-12 table-cell list_left'') ''state''
     = [''/isro'', ''/slbe''] \<and>
   map (\<lambda>park. fst (park_site demo_env park empty_world)) [''/isro'', ''/slbe'']
     = map Inr [demo_site ''page https://www.nps.gov/isro'',
                demo_site ''page https://www.nps.gov/slbe''] \<and>
   fst (get_sites_for_state demo_env ''https://www.nps.gov/state/mi/index.htm'' empty_world)
     = Inr [demo_site ''page https://www.nps.gov/isro'', demo_site ''page https://www.nps.gov/slbe''] \<and>
   fst (park_site demo_env ''/isro'' empty_world) = Inr (demo_site ''page https://www.nps.gov/isro'') \<and>
   fst (park_site demo_env ''/slbe'' empty_world) = Inr (demo_site ''page https://www.nps.gov/slbe'') \<and>
   fst (get_sites_for_state demo_env ''https://www.nps.gov/state/mi/index.htm''
          (snd (get_sites_for_state demo_env ''https://www.nps.gov/state/mi/index.htm'' empty_world)))
     = Inr [demo_site ''page https://www.nps.gov/isro'', demo_site ''page https://www.nps.gov/slbe'']"
proof -
  let ?u = "''https://www.nps.gov/state/mi/index.htm''"
  let ?sites = "[demo_site ''page https://www.nps.gov/isro'',
                 demo_site ''page https://www.nps.gov/slbe'']"
  let ?w' = "snd (get_sites_for_state demo_env ?u empty_world)"
  have h1: "codec_ok demo_env" by (rule demo_codec_ok)
  have h2: "http_get demo_env ?u [] = Inr '' state ''" by (simp add: demo_env_def)
  have h3: "BeautifulSoup demo_env (JStr (strip '' state '')) = Inr ''state''"
    by (simp add: demo_env_def demo_strip_state)
  have h4: "find demo_env (Id ''list_parks'') ''state'' = Some ''state''"
    by (simp add: demo_env_def)
  have h5: "find_all demo_env (Class ''col-md-9 col-sm-9 col-xs-12 table-cell list_left'') ''state''
              = [''/isro'', ''/slbe'']"
    by (simp add: demo_env_def)
  note r = get_sites_for_state_document_order
             [OF h1 h2 h3 h4 h5, of empty_world ?sites ?sites ?w']
  have h6: "map (\<lambda>park. fst (park_site demo_env park empty_world)) [''/isro'', ''/slbe'']
              = map Inr ?sites"
    by (rule demo_parks_empty_world)
  have f: "fst (get_sites_for_state demo_env ?u empty_world) = Inr ?sites"
    by (rule mp [OF conjunct1 [OF r] h6])
  have h7: "get_sites_for_state demo_env ?u empty_world = (Inr ?sites, ?w')"
    using f by (simp add: prod_eq_iff)
  note r' = mp [OF conjunct2 [OF r] h7]
  have a: "\<forall>i < length [''/isro'', ''/slbe''].
             fst (park_site demo_env ([''/isro'', ''/slbe''] ! i) empty_world) = Inr (?sites ! i)"
    by (rule conjunct1 [OF conjunct2 [OF r']])
  have r0: "fst (park_site demo_env ''/isro'' empty_world)
              = Inr (demo_site ''page https://www.nps.gov/isro'')"
    using a [rule_format, of 0] by simp
  have r1: "fst (park_site demo_env ''/slbe'' empty_world)
              = Inr (demo_site ''page https://www.nps.gov/slbe'')"
    using a [rule_format, of 1] by simp
  have r2: "fst (get_sites_for_state demo_env ?u ?w') = Inr ?sites"
    by (rule conjunct2 [OF conjunct2 [OF r']])
  show ?thesis
    using h1 h2 h3 h4 h5 h6 f r0 r1 r2 by (intro conjI)
qed

text \<open>
  C2. Not every fetch goes through the cache: \<^verbatim>\<open>get_sites_for_state\<close> calls
  \<^verbatim>\<open>requests.get\<close> on the state URL itself. In a world whose cache holds the state page
  and both park pages, \<^verbatim>\<open>make_request_with_cache\<close> returns the state page with no
  request sent, while \<^verbatim>\<open>get_sites_for_state\<close> sends a request for the state URL; the
  park pages, which it gets through \<^verbatim>\<open>make_request_with_cache\<close>, cost no request.
\<close>

theorem get_sites_for_state_bypasses_cache:
  "make_request_with_cache demo_env ''https://www.nps.gov/state/mi/index.htm''
     (world_with [(''https://www.nps.gov/state/mi/index.htm'', JStr '' state ''),
                  (''https://www.nps.gov/isro'', JStr ''page https://www.nps.gov/isro''),
                  (''https://www.nps.gov/slbe'', JStr ''page https://www.nps.gov/slbe'')])
   = (Inr (JStr '' state ''),
      world_with [(''https://www.nps.gov/state/mi/index.htm'', JStr '' state ''),
                  (''https://www.nps.gov/isro'', JStr ''page https://www.nps.gov/isro''),
                  (''https://www.nps.gov/slbe'', JStr ''page https://www.nps.gov/slbe'')]) \<and>
   get_sites_for_state demo_env ''https://www.nps.gov/state/mi/index.htm''
     (world_with [(''https://www.nps.gov/state/mi/index.htm'', JStr '' state ''),
                  (''https://www.nps.gov/isro'', JStr ''page https://www.nps.gov/isro''),
                  (''https://www.nps.gov/slbe'', JStr ''page https://www.nps.gov/slbe'')])
   = (Inr [demo_site ''page https://www.nps.gov/isro'', demo_site ''page https://www.nps.gov/slbe''],
      (world_with [(''https://www.nps.gov/state/mi/index.htm'', JStr '' state ''),
                   (''https://www.nps.gov/isro'', JStr ''page https://www.nps.gov/isro''),
                   (''https://www.nps.gov/slbe'', JStr ''page https://www.nps.gov/slbe'')])
        \<lparr>net_log := [(''https://www.nps.gov/state/mi/index.htm'', [])]\<rparr>)"
proof -
  let ?u = "''https://www.nps.gov/state/mi/index.htm''"
  let ?K = "[(?u, JStr '' state ''),
             (''https://www.nps.gov/isro'', JStr ''page https://www.nps.gov/isro''),
             (''https://www.nps.gov/slbe'', JStr ''page https://www.nps.gov/slbe'')]"
  let ?w0 = "(world_with ?K)\<lparr>net_log := net_log (world_with ?K) @ [(?u, [])]\<rparr>"
  have cached: "make_request_with_cache demo_env ?u (world_with ?K)
                  = (Inr (JStr '' state ''), world_with ?K)"
    by (rule mrwc_hit [OF stored_world_with]) simp
  have s0: "stored demo_env ?w0 = JObj ?K"
    using stored_cong [of ?w0 "world_with ?K" demo_env] by (simp add: stored_world_with)
  have p1: "park_site demo_env ''/isro'' ?w0 = (Inr (demo_site ''page https://www.nps.gov/isro''), ?w0)"
    by (rule demo_park_site_hit [OF s0 _ demo_strip_isro]) simp
  have p2: "park_site demo_env ''/slbe'' ?w0 = (Inr (demo_site ''page https://www.nps.gov/slbe''), ?w0)"
    by (rule demo_park_site_hit [OF s0 _ demo_strip_slbe]) simp
  have loop: "park_loop demo_env [''/isro'', ''/slbe''] [] ?w0 =
      (Inr [demo_site ''page https://www.nps.gov/isro'', demo_site ''page https://www.nps.gov/slbe''],
       ?w0)"
    by (simp add: py_bind_def py_lift_def p1 p2)
  have l: "net_log (world_with ?K) = []" by (simp add: world_with_def)
  have "get_sites_for_state demo_env ?u (world_with ?K) =
      (Inr [demo_site ''page https://www.nps.gov/isro'', demo_site ''page https://www.nps.gov/slbe''],
       ?w0)"
    using loop by (simp only: demo_state_page)
  then show ?thesis using cached by (simp add: l)
qed

end
